theory Spec2Isabelle
  imports Complex_Main "HOL-Library.Multiset"
begin

section \<open>Data model\<close>

text \<open>
  A Pauli term follows the OpenFermion convention used by \<^verbatim>\<open>estimator.py\<close>: a tuple of
  factors \<open>(qubit index, basis letter)\<close>. The \<^verbatim>\<open>terms\<close> dictionary of a
  \<^verbatim>\<open>QubitOperator\<close> or \<^verbatim>\<open>IsingOperator\<close> is an association list in insertion order,
  with exact complex coefficients.
\<close>

datatype pauli = X | Y | Z

type_synonym factor = "nat \<times> pauli"

type_synonym pauli_term = "factor list"

type_synonym symbolic_operator = "(pauli_term \<times> complex) list"

text \<open>
  Every raise of the source is a value: \<open>ValueError\<close> and \<open>AttributeError\<close> carry the
  message of the source, and \<open>BackendFailure\<close> stands for whatever a collaborator outside
  the sources raises.
\<close>

datatype error =
    ValueError string
  | AttributeError string
  | BackendFailure string

text \<open>
  A gate of the executed circuit is the \<^verbatim>\<open>pyquil\<close> gate value: a name, its angle
  parameters and the qubits it acts on. \<^verbatim>\<open>pyquil.gates.RX\<close> and \<^verbatim>\<open>pyquil.gates.RY\<close>
  build such a value from an angle and one qubit.
\<close>

datatype pyquil_gate =
  PyquilGate (gate_name: string) (gate_params: "real list") (gate_qubits: "nat list")

definition RX :: "real \<Rightarrow> nat \<Rightarrow> pyquil_gate" where
  "RX angle qubit = PyquilGate ''RX'' [angle] [qubit]"

definition RY :: "real \<Rightarrow> nat \<Rightarrow> pyquil_gate" where
  "RY angle qubit = PyquilGate ''RY'' [angle] [qubit]"

text \<open>
  Modelled from the spec: the class \<^verbatim>\<open>Circuit\<close> used by the estimator is not among the
  sources. A circuit is the ordered sequence of its gates, \<^verbatim>\<open>Circuit()\<close> is the empty
  sequence, \<^verbatim>\<open>Circuit(gate)\<close> holds the one gate, and \<^verbatim>\<open>c1 + c2\<close> (and \<^verbatim>\<open>c1 += c2\<close>)
  is the concatenation in that order.
\<close>

type_synonym circuit = "pyquil_gate list"

definition Circuit :: "pyquil_gate \<Rightarrow> circuit" where
  "Circuit g = [g]"

section \<open>The operator algebra used by the estimator\<close>

text \<open>
  \<^verbatim>\<open>IsingOperator\<close> is a class of the OpenFermion library; what follows is the part of
  its \<^verbatim>\<open>SymbolicOperator\<close> base class that \<^verbatim>\<open>estimator.py\<close> calls. A dictionary is
  read with \<open>map_of\<close>; assigning to a key keeps the position of a key that is present and
  appends a new one, and \<^verbatim>\<open>del\<close> removes the entry.
\<close>

fun dict_set :: "'k \<Rightarrow> 'v \<Rightarrow> ('k \<times> 'v) list \<Rightarrow> ('k \<times> 'v) list" where
  "dict_set k v [] = [(k, v)]"
| "dict_set k v (entry # d) =
     (if fst entry = k then (k, v) # d else entry # dict_set k v d)"

definition dict_del :: "'k \<Rightarrow> ('k \<times> 'v) list \<Rightarrow> ('k \<times> 'v) list" where
  "dict_del k d = filter (\<lambda>entry. fst entry \<noteq> k) d"

text \<open>
  \<^verbatim>\<open>_simplify\<close>: factors on different indices commute, so a term is kept sorted by qubit
  index (Python's \<^verbatim>\<open>sorted\<close> is stable, as \<open>sort_key\<close> is).
\<close>

definition simplify :: "pauli_term \<Rightarrow> pauli_term" where
  "simplify t = sort_key fst t"

text \<open>\<^verbatim>\<open>IsingOperator()\<close>: the zero operator, with no term.\<close>

definition IsingOperator_zero :: symbolic_operator where
  "IsingOperator_zero = []"

text \<open>\<^verbatim>\<open>IsingOperator(())\<close>: the identity, the empty term with coefficient 1.\<close>

definition IsingOperator_identity :: symbolic_operator where
  "IsingOperator_identity = [([], 1)]"

text \<open>\<^verbatim>\<open>IsingOperator((index, "Z"))\<close>: the single factor Z on one qubit.\<close>

definition IsingOperator_factor :: "nat \<Rightarrow> symbolic_operator" where
  "IsingOperator_factor index = [([(index, Z)], 1)]"

text \<open>
  \<^verbatim>\<open>self *= multiplier\<close> for two operators: every left term is concatenated with every
  right term, simplified, and the products of the coefficients are accumulated in a fresh
  dictionary.
\<close>

definition imul_step ::
  "pauli_term \<times> complex \<Rightarrow> pauli_term \<times> complex \<Rightarrow> symbolic_operator \<Rightarrow> symbolic_operator" where
  "imul_step left right result_terms =
     (let new_coefficient = snd left * snd right;
          new_term = simplify (fst left @ fst right)
      in case map_of result_terms new_term of
           Some c \<Rightarrow> dict_set new_term (c + new_coefficient) result_terms
         | None \<Rightarrow> dict_set new_term new_coefficient result_terms)"

definition imul :: "symbolic_operator \<Rightarrow> symbolic_operator \<Rightarrow> symbolic_operator" where
  "imul self multiplier =
     fold (\<lambda>left result_terms. fold (imul_step left) multiplier result_terms) self []"

text \<open>
  The coefficients of a group are floating-point numbers. What the library computes on them
  is not computed here: the floating-point sum and product of two coefficients, and the
  library's test that a coefficient is negligible (its absolute value is below the
  library's tolerance), are the fields of \<open>arithmetic\<close>.
\<close>

record arithmetic =
  float_add :: "complex \<Rightarrow> complex \<Rightarrow> complex"
  float_mul :: "complex \<Rightarrow> complex \<Rightarrow> complex"
  issmall :: "complex \<Rightarrow> bool"

text \<open>
  The arithmetic of the concrete runs below: the tolerance is the library's \<open>1e-8\<close>, and
  sum and product are exact. The runs only form \<open>0 + c\<close> and \<open>1 * c\<close> for a coefficient
  \<open>c\<close> that is a small integer or a power of two, where the floating-point result is the
  exact one.
\<close>

definition tolerance_arithmetic :: arithmetic where
  "tolerance_arithmetic =
     \<lparr>float_add = (+), float_mul = (*), issmall = (\<lambda>c. cmod c < 1 / 10 ^ 8)\<rparr>"

text \<open>\<^verbatim>\<open>self * multiplier\<close> for a scalar: every coefficient is multiplied.\<close>

definition scale :: "arithmetic \<Rightarrow> symbolic_operator \<Rightarrow> complex \<Rightarrow> symbolic_operator" where
  "scale ar self multiplier =
     map (\<lambda>entry. (fst entry, float_mul ar (snd entry) multiplier)) self"

text \<open>
  \<^verbatim>\<open>self += addend\<close>: the coefficient of each term of the addend is added to the one
  present (0.0 when absent) and stored; an entry whose coefficient is then negligible is
  deleted.
\<close>

definition iadd_step ::
  "arithmetic \<Rightarrow> pauli_term \<times> complex \<Rightarrow> symbolic_operator \<Rightarrow> symbolic_operator" where
  "iadd_step ar entry terms =
     (let c = float_add ar (case map_of terms (fst entry) of None \<Rightarrow> 0 | Some c0 \<Rightarrow> c0)
                (snd entry)
      in if issmall ar c then dict_del (fst entry) (dict_set (fst entry) c terms)
         else dict_set (fst entry) c terms)"

definition iadd :: "arithmetic \<Rightarrow> symbolic_operator \<Rightarrow> symbolic_operator \<Rightarrow> symbolic_operator" where
  "iadd ar self addend = fold (iadd_step ar) addend self"

text \<open>The coefficient of a term in an operator: 0 for a term the dictionary does not hold.\<close>

definition coefficient_of :: "symbolic_operator \<Rightarrow> pauli_term \<Rightarrow> complex" where
  "coefficient_of operator t = (case map_of operator t of None \<Rightarrow> 0 | Some c \<Rightarrow> c)"

section \<open>Context selection circuits\<close>

text \<open>
  \<^verbatim>\<open>get_context_selection_circuit\<close>: the loop over the factors of the term carries the
  circuit and the frame operator.
\<close>

fun context_selection_loop ::
  "pauli_term \<Rightarrow> circuit \<times> symbolic_operator \<Rightarrow> circuit \<times> symbolic_operator" where
  "context_selection_loop [] (context_selection_circuit, operator) =
     (context_selection_circuit, operator)"
| "context_selection_loop (factor # rest) (context_selection_circuit, operator) =
     context_selection_loop rest
       (if snd factor = X
          then context_selection_circuit @ Circuit (RY (- pi / 2) (fst factor))
        else if snd factor = Y
          then context_selection_circuit @ Circuit (RX (pi / 2) (fst factor))
        else context_selection_circuit,
        imul operator (IsingOperator_factor (fst factor)))"

definition get_context_selection_circuit :: "pauli_term \<Rightarrow> circuit \<times> symbolic_operator" where
  "get_context_selection_circuit t = context_selection_loop t ([], IsingOperator_identity)"

text \<open>
  \<^verbatim>\<open>get_context_selection_circuit_for_group\<close>. The innermost loop compares the factor
  with every factor of the context and raises at the first one on the same qubit with
  another letter: \<open>conflicts\<close> is whether it raises.
\<close>

fun conflicts :: "factor list \<Rightarrow> factor \<Rightarrow> bool" where
  "conflicts [] factor = False"
| "conflicts (existing_factor # context) factor =
     (if fst existing_factor = fst factor \<and> snd existing_factor \<noteq> snd factor then True
      else conflicts context factor)"

text \<open>\<^verbatim>\<open>if not factor in context: context.append(factor)\<close>\<close>

definition append_if_new :: "factor \<Rightarrow> factor list \<Rightarrow> factor list" where
  "append_if_new factor context = (if factor \<in> set context then context else context @ [factor])"

text \<open>The loop over the factors of one term carries the context and the term's operator.\<close>

fun term_loop ::
  "pauli_term \<Rightarrow> factor list \<times> symbolic_operator
     \<Rightarrow> error + (factor list \<times> symbolic_operator)" where
  "term_loop [] (context, term_operator) = Inr (context, term_operator)"
| "term_loop (factor # rest) (context, term_operator) =
     (if conflicts context factor then Inl (ValueError ''Terms are not co-measurable'')
      else term_loop rest
             (append_if_new factor context,
              imul term_operator (IsingOperator_factor (fst factor))))"

text \<open>
  The loop over \<^verbatim>\<open>qubit_operator.terms\<close> carries the context and the frame operator.
  Iterating over a dictionary and reading it at the key visits its items in order.
\<close>

fun group_loop ::
  "arithmetic \<Rightarrow> symbolic_operator \<Rightarrow> factor list \<times> symbolic_operator
     \<Rightarrow> error + (factor list \<times> symbolic_operator)" where
  "group_loop ar [] (context, operator) = Inr (context, operator)"
| "group_loop ar (entry # terms) (context, operator) =
     (case term_loop (fst entry) (context, IsingOperator_identity) of
        Inl e \<Rightarrow> Inl e
      | Inr (context', term_operator) \<Rightarrow>
          group_loop ar terms
            (context', iadd ar operator (scale ar term_operator (snd entry))))"

text \<open>The second loop turns the collected context into gates.\<close>

fun circuit_loop :: "factor list \<Rightarrow> circuit \<Rightarrow> circuit" where
  "circuit_loop [] context_selection_circuit = context_selection_circuit"
| "circuit_loop (factor # context) context_selection_circuit =
     circuit_loop context
       (if snd factor = X
          then context_selection_circuit @ Circuit (RY (- pi / 2) (fst factor))
        else if snd factor = Y
          then context_selection_circuit @ Circuit (RX (pi / 2) (fst factor))
        else context_selection_circuit)"

definition get_context_selection_circuit_for_group ::
  "arithmetic \<Rightarrow> symbolic_operator \<Rightarrow> error + (circuit \<times> symbolic_operator)" where
  "get_context_selection_circuit_for_group ar qubit_operator =
     (case group_loop ar qubit_operator ([], IsingOperator_zero) of
        Inl e \<Rightarrow> Inl e
      | Inr (context, operator) \<Rightarrow> Inr (circuit_loop context [], operator))"

text \<open>
  The statements about context selection are phrased with the following functions, which
  follow the words of the specification rather than the loops of the code: the rotation
  for one factor, the product of Z over a list of qubit indices (one term with
  coefficient 1), and the Z term that stands for a Pauli term.
\<close>

definition spec_basis_rotation :: "factor \<Rightarrow> circuit" where
  "spec_basis_rotation factor =
     (case snd factor of
        X \<Rightarrow> [RY (- pi / 2) (fst factor)]
      | Y \<Rightarrow> [RX (pi / 2) (fst factor)]
      | Z \<Rightarrow> [])"

definition spec_Z_product :: "nat list \<Rightarrow> symbolic_operator" where
  "spec_Z_product indices = [(sort_key fst (map (\<lambda>index. (index, Z)) indices), 1)]"

definition Z_term :: "pauli_term \<Rightarrow> pauli_term" where
  "Z_term t = sort_key fst (map (\<lambda>factor. (fst factor, Z)) t)"

text \<open>
  Two terms conflict when some factor of the first and some factor of the second sit on
  the same qubit with different letters; a group is not co-measurable when it holds two
  conflicting terms. \<open>consistent\<close> is the same condition on a set of factors.
\<close>

definition terms_conflict :: "pauli_term \<Rightarrow> pauli_term \<Rightarrow> bool" where
  "terms_conflict t1 t2 =
     list_ex (\<lambda>factor1.
                list_ex (\<lambda>factor2. fst factor1 = fst factor2 \<and> snd factor1 \<noteq> snd factor2) t2) t1"

definition spec_not_co_measurable :: "symbolic_operator \<Rightarrow> bool" where
  "spec_not_co_measurable qubit_operator =
     list_ex (\<lambda>entry1. list_ex (\<lambda>entry2. terms_conflict (fst entry1) (fst entry2)) qubit_operator)
       qubit_operator"

text \<open>
  The frame operator of a group, stated apart from the loops: the coefficient the
  library computes for a term of coefficient \<open>c\<close> is \<open>0.0 + 1.0 * c\<close>, and the operator
  holds, in the order of the group, the Z term of every term whose computed coefficient is
  not negligible, with that coefficient.
\<close>

definition spec_coefficient :: "arithmetic \<Rightarrow> complex \<Rightarrow> complex" where
  "spec_coefficient ar c = float_add ar 0 (float_mul ar 1 c)"

definition spec_frame_operator :: "arithmetic \<Rightarrow> symbolic_operator \<Rightarrow> symbolic_operator" where
  "spec_frame_operator ar qubit_operator =
     map (\<lambda>entry. (Z_term (fst entry), spec_coefficient ar (snd entry)))
       (filter (\<lambda>entry. \<not> issmall ar (spec_coefficient ar (snd entry))) qubit_operator)"

definition consistent :: "factor set \<Rightarrow> bool" where
  "consistent S = (\<forall>e\<in>S. \<forall>f\<in>S. fst e = fst f \<longrightarrow> snd e = snd f)"

section \<open>Selecting the decomposition function\<close>

text \<open>
  \<^verbatim>\<open>group_comeasureable_terms_greedy\<close> lives in a module that is not among the sources, so
  it is a parameter: a function of the operator and of its optional second positional
  argument (\<open>None\<close> when the call leaves it out). \<^verbatim>\<open>DECOMPOSITION_METHODS\<close> is the
  dictionary of the two named methods.
\<close>

definition DECOMPOSITION_METHODS ::
  "(symbolic_operator \<Rightarrow> bool option \<Rightarrow> 'g) \<Rightarrow> (string \<times> (symbolic_operator \<Rightarrow> 'g)) list" where
  "DECOMPOSITION_METHODS group_comeasureable_terms_greedy =
     [(''greedy'', \<lambda>qubit_operator. group_comeasureable_terms_greedy qubit_operator None),
      (''greedy-sorted'',
         \<lambda>qubit_operator. group_comeasureable_terms_greedy qubit_operator (Some True))]"

text \<open>The text Python prints for \<^verbatim>\<open>DECOMPOSITION_METHODS.keys()\<close>.\<close>

definition keys_repr :: string where
  "keys_repr = ''dict_keys(['' @ [CHR 0x27] @ ''greedy'' @ [CHR 0x27] @ '', ''
     @ [CHR 0x27] @ ''greedy-sorted'' @ [CHR 0x27] @ ''])''"

definition unrecognized_message :: "string \<Rightarrow> string" where
  "unrecognized_message decomposition_method =
     ''Unrecognized decomposition method '' @ decomposition_method
       @ ''. Allowed values are '' @ keys_repr"

definition get_decomposition_function ::
  "(symbolic_operator \<Rightarrow> bool option \<Rightarrow> 'g) \<Rightarrow> string \<Rightarrow> error + (symbolic_operator \<Rightarrow> 'g)" where
  "get_decomposition_function group_comeasureable_terms_greedy decomposition_method =
     (case map_of (DECOMPOSITION_METHODS group_comeasureable_terms_greedy) decomposition_method of
        None \<Rightarrow> Inl (ValueError (unrecognized_message decomposition_method))
      | Some decomposition_function \<Rightarrow> Inr decomposition_function)"

section \<open>The estimators\<close>

text \<open>
  The backend is an object of an external class. Its state is a record: the mutable
  \<^verbatim>\<open>n_samples\<close> field, whether the object is an instance of \<^verbatim>\<open>QuantumSimulator\<close>, and
  whatever else the object holds. Its methods, and the functions of the modules
  \<^verbatim>\<open>measurement\<close> and \<^verbatim>\<open>hamiltonian\<close> that are not among the sources, are the fields of
  \<open>collaborators\<close>, with the arithmetic of the operator library. A method of the backend
  takes the state of the backend and returns the state it leaves behind, also when it
  raises; every collaborator may raise.
\<close>

record 's backend =
  n_samples :: "int option"
  is_quantum_simulator :: bool
  device :: 's

record ('s, 'm, 'ev) collaborators =
  operator_arithmetic :: arithmetic
  group_comeasureable_terms_greedy :: "symbolic_operator \<Rightarrow> bool option \<Rightarrow> symbolic_operator list"
  run_circuitset_and_measure :: "'s backend \<Rightarrow> circuit list \<Rightarrow> (error + 'm list) \<times> 's backend"
  get_exact_expectation_values ::
    "'s backend \<Rightarrow> circuit \<Rightarrow> symbolic_operator \<Rightarrow> (error + 'ev) \<times> 's backend"
  get_expectation_values :: "'m \<Rightarrow> symbolic_operator \<Rightarrow> error + 'ev"
  expectation_values_to_real :: "'ev \<Rightarrow> error + 'ev"
  concatenate_expectation_values :: "'ev list \<Rightarrow> error + 'ev"

text \<open>The first loop of \<^verbatim>\<open>BasicEstimator.get_estimated_expectation_values\<close>, over the groups.\<close>

fun frames_loop ::
  "arithmetic \<Rightarrow> circuit \<Rightarrow> symbolic_operator list \<Rightarrow> circuit list \<times> symbolic_operator list
     \<Rightarrow> error + (circuit list \<times> symbolic_operator list)" where
  "frames_loop ar circuit [] (frame_circuits, frame_operators) =
     Inr (frame_circuits, frame_operators)"
| "frames_loop ar circuit (grp # groups) (frame_circuits, frame_operators) =
     (case get_context_selection_circuit_for_group ar grp of
        Inl e \<Rightarrow> Inl e
      | Inr (frame_circuit, frame_operator) \<Rightarrow>
          frames_loop ar circuit groups
            (frame_circuits @ [circuit @ frame_circuit], frame_operators @ [frame_operator]))"

text \<open>The last loop, over the frame operators zipped with the measurements.\<close>

fun expectation_loop ::
  "('s, 'm, 'ev) collaborators \<Rightarrow> (symbolic_operator \<times> 'm) list \<Rightarrow> 'ev list
     \<Rightarrow> error + 'ev list" where
  "expectation_loop env [] expectation_values_set = Inr expectation_values_set"
| "expectation_loop env (pair # rest) expectation_values_set =
     (case get_expectation_values env (snd pair) (fst pair) of
        Inl e \<Rightarrow> Inl e
      | Inr complex_values \<Rightarrow>
          (case expectation_values_to_real env complex_values of
             Inl e \<Rightarrow> Inl e
           | Inr real_values \<Rightarrow>
               expectation_loop env rest (expectation_values_set @ [real_values])))"

definition collect_expectation_values ::
  "('s, 'm, 'ev) collaborators \<Rightarrow> symbolic_operator list \<Rightarrow> 'm list \<Rightarrow> error + 'ev" where
  "collect_expectation_values env frame_operators measurements_set =
     (case expectation_loop env (zip frame_operators measurements_set) [] of
        Inl e \<Rightarrow> Inl e
      | Inr expectation_values_set \<Rightarrow>
          (case concatenate_expectation_values env expectation_values_set of
             Inl e \<Rightarrow> Inl e
           | Inr concatenated \<Rightarrow> expectation_values_to_real env concatenated))"

text \<open>
  \<^verbatim>\<open>BasicEstimator.get_estimated_expectation_values\<close>. The result is what the call returns
  or raises, with the state of the backend after the call. \<open>n_samples_given\<close> is the
  argument \<^verbatim>\<open>n_samples\<close>; the caller that leaves \<^verbatim>\<open>decomposition_method\<close> out passes
  \<^verbatim>\<open>"greedy-sorted"\<close>. Between the assignment of \<^verbatim>\<open>backend.n_samples\<close> and the assignment
  that restores it there is only the call of the backend, with no handler around it: when
  that call raises, the exception leaves the function at once.
\<close>

definition BasicEstimator_get_estimated_expectation_values ::
  "('s, 'm, 'ev) collaborators \<Rightarrow> 's backend \<Rightarrow> circuit \<Rightarrow> symbolic_operator
     \<Rightarrow> int option \<Rightarrow> real option \<Rightarrow> real option \<Rightarrow> string \<Rightarrow> (error + 'ev) \<times> 's backend" where
  "BasicEstimator_get_estimated_expectation_values env backend circuit target_operator
       n_samples_given epsilon delta decomposition_method =
     (case get_decomposition_function (group_comeasureable_terms_greedy env) decomposition_method of
        Inl e \<Rightarrow> (Inl e, backend)
      | Inr decomposition_function \<Rightarrow>
          (case frames_loop (operator_arithmetic env) circuit
                  (decomposition_function target_operator) ([], []) of
             Inl e \<Rightarrow> (Inl e, backend)
           | Inr (frame_circuits, frame_operators) \<Rightarrow>
               (case n_samples_given of
                  Some n \<Rightarrow>
                    (let saved_n_samples = n_samples backend
                     in case run_circuitset_and_measure env
                               (backend\<lparr>n_samples := Some n\<rparr>) frame_circuits of
                          (Inl e, backend') \<Rightarrow> (Inl e, backend')
                        | (Inr measurements_set, backend') \<Rightarrow>
                            (collect_expectation_values env frame_operators measurements_set,
                             backend'\<lparr>n_samples := saved_n_samples\<rparr>))
                | None \<Rightarrow>
                    (case run_circuitset_and_measure env backend frame_circuits of
                       (Inl e, backend') \<Rightarrow> (Inl e, backend')
                     | (Inr measurements_set, backend') \<Rightarrow>
                         (collect_expectation_values env frame_operators measurements_set,
                          backend')))))"

text \<open>\<^verbatim>\<open>ExactEstimator.get_estimated_expectation_values\<close>.\<close>

definition ExactEstimator_get_estimated_expectation_values ::
  "('s, 'm, 'ev) collaborators \<Rightarrow> 's backend \<Rightarrow> circuit \<Rightarrow> symbolic_operator
     \<Rightarrow> int option \<Rightarrow> real option \<Rightarrow> real option \<Rightarrow> (error + 'ev) \<times> 's backend" where
  "ExactEstimator_get_estimated_expectation_values env backend circuit target_operator
       n_samples_given epsilon delta =
     (if is_quantum_simulator backend
        then get_exact_expectation_values env backend circuit target_operator
      else (Inl (AttributeError
                   ''To use the ExactEstimator, the backend must be a QuantumSimulator.''),
            backend))"

text \<open>
  A backend whose batched run always fails and touches nothing, a grouping that puts the
  whole operator in one group, and measurement functions that return what they are given:
  the collaborators of the concrete runs below.
\<close>

definition offline_collaborators :: "(unit, unit, unit) collaborators" where
  "offline_collaborators =
     \<lparr>operator_arithmetic = tolerance_arithmetic,
      group_comeasureable_terms_greedy = (\<lambda>qubit_operator sort_terms. [qubit_operator]),
      run_circuitset_and_measure =
        (\<lambda>backend circuits. (Inl (BackendFailure ''device unreachable''), backend)),
      get_exact_expectation_values = (\<lambda>backend circuit operator. (Inr (), backend)),
      get_expectation_values = (\<lambda>measurements operator. Inr ()),
      expectation_values_to_real = (\<lambda>expectation_values. Inr expectation_values),
      concatenate_expectation_values = (\<lambda>expectation_values_set. Inr ())\<rparr>"

definition sampling_backend :: "unit backend" where
  "sampling_backend = \<lparr>n_samples = Some 100, is_quantum_simulator = False, device = ()\<rparr>"

section \<open>The cost function\<close>

text \<open>
  \<^verbatim>\<open>ExpectationValues\<close> and \<^verbatim>\<open>ValueEstimate\<close> belong to modules that are not among the
  sources; of the first only the array \<^verbatim>\<open>values\<close> is read, the second is built from a
  value alone, which leaves its precision unset. A floating-point number is the real
  number it denotes; the floating-point sum of an array is not computed here:
  \<^verbatim>\<open>np.sum\<close> is the parameter \<open>np_sum\<close>. The ansatz and the estimator are objects
  behind an interface: the method of each is a function that may raise.
  \<^verbatim>\<open>combine_ansatz_params\<close> is a parameter.
\<close>

record expectation_values =
  ev_values :: "real list"

datatype value_estimate = ValueEstimate (estimate_value: real) (estimate_precision: "real option")

record ansatz =
  get_executable_circuit :: "real list \<Rightarrow> error + circuit"

record 's AnsatzBasedCostFunction =
  self_target_operator :: symbolic_operator
  self_ansatz :: ansatz
  self_backend :: "'s backend"
  self_estimator ::
    "'s backend \<Rightarrow> circuit \<Rightarrow> symbolic_operator \<Rightarrow> int option \<Rightarrow> real option \<Rightarrow> real option
       \<Rightarrow> (error + expectation_values) \<times> 's backend"
  self_n_samples :: "int option"
  self_epsilon :: "real option"
  self_delta :: "real option"
  self_fixed_parameters :: "real list option"

definition AnsatzBasedCostFunction_call ::
  "(real list \<Rightarrow> real) \<Rightarrow> (real list \<Rightarrow> real list \<Rightarrow> real list)
     \<Rightarrow> 's AnsatzBasedCostFunction \<Rightarrow> real list \<Rightarrow> (error + value_estimate) \<times> 's backend" where
  "AnsatzBasedCostFunction_call np_sum combine_ansatz_params self parameters =
     (let parameters =
            (case self_fixed_parameters self of
               Some fixed_parameters \<Rightarrow> combine_ansatz_params fixed_parameters parameters
             | None \<Rightarrow> parameters)
      in case get_executable_circuit (self_ansatz self) parameters of
           Inl e \<Rightarrow> (Inl e, self_backend self)
         | Inr circuit \<Rightarrow>
             (case self_estimator self (self_backend self) circuit (self_target_operator self)
                     (self_n_samples self) (self_epsilon self) (self_delta self) of
                (Inl e, backend') \<Rightarrow> (Inl e, backend')
              | (Inr expectation_values, backend') \<Rightarrow>
                  (Inr (ValueEstimate (np_sum (ev_values expectation_values)) None),
                   backend')))"

text \<open>The effective parameters, in the words of the specification.\<close>

definition spec_effective_parameters ::
  "(real list \<Rightarrow> real list \<Rightarrow> real list) \<Rightarrow> real list option \<Rightarrow> real list \<Rightarrow> real list" where
  "spec_effective_parameters combine_ansatz_params fixed_parameters parameters =
     (case fixed_parameters of
        None \<Rightarrow> parameters
      | Some fixed \<Rightarrow> combine_ansatz_params fixed parameters)"

text \<open>
  A cost function for the concrete run below: its ansatz turns every parameter into an RX
  gate on qubit 0, and its estimator returns the angles of the circuit as expectation
  values.
\<close>

definition summing_cost_function :: "unit AnsatzBasedCostFunction" where
  "summing_cost_function =
     \<lparr>self_target_operator = [([(0, Z)], 1)],
      self_ansatz = \<lparr>get_executable_circuit = (\<lambda>parameters. Inr (map (\<lambda>angle. RX angle 0) parameters))\<rparr>,
      self_backend = sampling_backend,
      self_estimator =
        (\<lambda>backend circuit operator n_samples_given epsilon delta.
           (Inr \<lparr>ev_values = concat (map gate_params circuit)\<rparr>, backend)),
      self_n_samples = None,
      self_epsilon = None,
      self_delta = None,
      self_fixed_parameters = Some [1, 2]\<rparr>"

section \<open>Auxiliary facts\<close>

lemma sort_key_absorb:
  "sort_key f (sort_key f xs @ ys) = sort_key f (xs @ ys)"
proof (rule sym, rule properties_for_sort_key)
  show "mset (sort_key f (sort_key f xs @ ys)) = mset (xs @ ys)"
    by simp
next
  fix k
  have "filter (\<lambda>y. f y = f k) (sort_key f (sort_key f xs @ ys))
      = filter (\<lambda>y. f y = f k) (xs @ ys)"
    by (simp add: sort_key_stable)
  moreover have "(\<lambda>x. f k = f x) = (\<lambda>y. f y = f k)"
    by auto
  ultimately show "filter (\<lambda>x. f k = f x) (sort_key f (sort_key f xs @ ys))
      = filter (\<lambda>x. f k = f x) (xs @ ys)"
    by simp
next
  show "sorted (map f (sort_key f (sort_key f xs @ ys)))"
    by simp
qed

lemma imul_monomial:
  "imul [(t, k)] (IsingOperator_factor q) = [(sort_key fst (t @ [(q, Z)]), k)]"
  by (simp add: imul_def imul_step_def IsingOperator_factor_def simplify_def)

lemma context_selection_loop_monomial:
  "sorted (map fst t) \<Longrightarrow> context_selection_loop fs (c, [(t, k)])
     = (c @ concat (map spec_basis_rotation fs),
        [(sort_key fst (t @ map (\<lambda>factor. (fst factor, Z)) fs), k)])"
proof (induction fs arbitrary: c t)
  case Nil
  then show ?case by (simp add: sort_key_id_if_sorted)
next
  case (Cons factor fs)
  have "sort_key fst (sort_key fst (t @ [(fst factor, Z)]) @ map (\<lambda>factor. (fst factor, Z)) fs)
      = sort_key fst (t @ map (\<lambda>factor. (fst factor, Z)) (factor # fs))"
    by (simp add: sort_key_absorb)
  then show ?case
    by (cases "snd factor") (simp_all add: Cons.IH imul_monomial spec_basis_rotation_def Circuit_def)
qed


lemma conflicts_iff:
  "conflicts ctx factor \<longleftrightarrow> (\<exists>e\<in>set ctx. fst e = fst factor \<and> snd e \<noteq> snd factor)"
  by (induction ctx) auto

lemma consistent_insert:
  assumes "consistent S" and "\<not> (\<exists>e\<in>S. fst e = fst f \<and> snd e \<noteq> snd f)"
  shows "consistent (insert f S)"
  unfolding consistent_def
proof (intro ballI impI)
  fix a b
  assume a: "a \<in> insert f S" and b: "b \<in> insert f S" and q: "fst a = fst b"
  have old: "\<And>x y. x \<in> S \<Longrightarrow> y \<in> S \<Longrightarrow> fst x = fst y \<Longrightarrow> snd x = snd y"
    using assms(1) unfolding consistent_def by blast
  have new: "\<And>x. x \<in> S \<Longrightarrow> fst x = fst f \<Longrightarrow> snd x = snd f"
    using assms(2) by blast
  show "snd a = snd b"
  proof (cases "a = f")
    case True
    show ?thesis
    proof (cases "b = f")
      case True
      with \<open>a = f\<close> show ?thesis by simp
    next
      case False
      with b have "b \<in> S" by simp
      with new[of b] q \<open>a = f\<close> show ?thesis by simp
    qed
  next
    case False
    with a have aS: "a \<in> S" by simp
    show ?thesis
    proof (cases "b = f")
      case True
      with new[OF aS] q show ?thesis by simp
    next
      case False
      with b have bS: "b \<in> S" by simp
      show ?thesis using aS bS q by (rule old)
    qed
  qed
qed

lemma consistent_subset: "consistent S \<Longrightarrow> T \<subseteq> S \<Longrightarrow> consistent T"
  unfolding consistent_def by blast

lemma set_append_if_new: "set (append_if_new f ctx) = insert f (set ctx)"
  by (auto simp: append_if_new_def)

lemma distinct_append_if_new: "distinct ctx \<Longrightarrow> distinct (append_if_new f ctx)"
  by (simp add: append_if_new_def)

lemma term_loop_step:
  "term_loop (f # fs) (ctx, tp) =
     (if conflicts ctx f then Inl (ValueError ''Terms are not co-measurable'')
      else term_loop fs (append_if_new f ctx, imul tp (IsingOperator_factor (fst f))))"
  by (simp add: append_if_new_def)

lemma term_loop_Inr:
  "term_loop fs (ctx, tp) = Inr (ctx', tp') \<Longrightarrow> consistent (set ctx) \<Longrightarrow> distinct ctx
     \<Longrightarrow> consistent (set ctx') \<and> distinct ctx' \<and> set ctx' = set ctx \<union> set fs"
proof (induction fs arbitrary: ctx tp)
  case Nil
  then show ?case by simp
next
  case (Cons f fs)
  have nc: "\<not> conflicts ctx f"
    using Cons.prems(1) unfolding term_loop_step by (cases "conflicts ctx f") simp_all
  then have run: "term_loop fs (append_if_new f ctx, imul tp (IsingOperator_factor (fst f))) = Inr (ctx', tp')"
    using Cons.prems(1) unfolding term_loop_step by simp
  have "\<not> (\<exists>e\<in>set ctx. fst e = fst f \<and> snd e \<noteq> snd f)"
    using nc unfolding conflicts_iff .
  then have c: "consistent (set (append_if_new f ctx))"
    unfolding set_append_if_new using Cons.prems(2) by (intro consistent_insert)
  have d: "distinct (append_if_new f ctx)"
    using Cons.prems(3) by (rule distinct_append_if_new)
  have "consistent (set ctx') \<and> distinct ctx' \<and> set ctx' = set (append_if_new f ctx) \<union> set fs"
    using run c d by (rule Cons.IH)
  then have "consistent (set ctx')" "distinct ctx'" "set ctx' = set (append_if_new f ctx) \<union> set fs"
    by blast+
  moreover have "set (append_if_new f ctx) \<union> set fs = set ctx \<union> set (f # fs)"
    unfolding set_append_if_new by simp
  ultimately show ?case
    by (simp only: simp_thms)
qed

lemma term_loop_Inl:
  "term_loop fs (ctx, tp) = Inl e
     \<Longrightarrow> e = ValueError ''Terms are not co-measurable'' \<and> \<not> consistent (set ctx \<union> set fs)"
proof (induction fs arbitrary: ctx tp)
  case Nil
  then show ?case by simp
next
  case (Cons f fs)
  show ?case
  proof (cases "conflicts ctx f")
    case True
    then obtain x where x: "x \<in> set ctx" "fst x = fst f" "snd x \<noteq> snd f"
      unfolding conflicts_iff by blast
    have "\<not> consistent (set ctx \<union> set (f # fs))"
    proof
      assume "consistent (set ctx \<union> set (f # fs))"
      moreover have "x \<in> set ctx \<union> set (f # fs)" "f \<in> set ctx \<union> set (f # fs)"
        using x(1) by simp_all
      ultimately have "snd x = snd f"
        unfolding consistent_def using x(2) by blast
      with x(3) show False by simp
    qed
    moreover have "e = ValueError ''Terms are not co-measurable''"
      using Cons.prems True unfolding term_loop_step by simp
    ultimately show ?thesis by simp
  next
    case False
    then have run: "term_loop fs (append_if_new f ctx, imul tp (IsingOperator_factor (fst f))) = Inl e"
      using Cons.prems unfolding term_loop_step by simp
    have "e = ValueError ''Terms are not co-measurable''
        \<and> \<not> consistent (set (append_if_new f ctx) \<union> set fs)"
      using run by (rule Cons.IH)
    then show ?thesis by (simp add: set_append_if_new)
  qed
qed

lemma term_loop_operator:
  "term_loop fs (ctx, [(t, k)]) = Inr (ctx', tp') \<Longrightarrow> sorted (map fst t)
     \<Longrightarrow> tp' = [(sort_key fst (t @ map (\<lambda>factor. (fst factor, Z)) fs), k)]"
proof (induction fs arbitrary: ctx t)
  case Nil
  then show ?case by (simp add: sort_key_id_if_sorted)
next
  case (Cons f fs)
  have nc: "\<not> conflicts ctx f"
    using Cons.prems(1) unfolding term_loop_step by (cases "conflicts ctx f") simp_all
  then have run: "term_loop fs (append_if_new f ctx, [(sort_key fst (t @ [(fst f, Z)]), k)]) = Inr (ctx', tp')"
    using Cons.prems(1) unfolding term_loop_step by (simp add: imul_monomial)
  have "sorted (map fst (sort_key fst (t @ [(fst f, Z)])))" by simp
  with run have "tp' = [(sort_key fst (sort_key fst (t @ [(fst f, Z)]) @ map (\<lambda>factor. (fst factor, Z)) fs), k)]"
    by (rule Cons.IH)
  then show ?case
    by (simp add: sort_key_absorb)
qed

lemma group_loop_step:
  "group_loop ar (entry # terms) (ctx, operator) =
     (case term_loop (fst entry) (ctx, [([], 1)]) of
        Inl e \<Rightarrow> Inl e
      | Inr (ctx', term_operator) \<Rightarrow>
          group_loop ar terms (ctx', iadd ar operator (scale ar term_operator (snd entry))))"
  by (simp add: IsingOperator_identity_def)

lemma term_loop_identity_operator:
  assumes "term_loop t (ctx, [([], 1)]) = Inr (ctx', tp')"
  shows "tp' = [(Z_term t, 1)]"
proof -
  have "sorted (map fst ([] :: pauli_term))" by simp
  with assms have "tp' = [(sort_key fst ([] @ map (\<lambda>factor. (fst factor, Z)) t), 1)]"
    by (rule term_loop_operator)
  then show ?thesis by (simp add: Z_term_def)
qed

lemma group_loop_Inr:
  "group_loop ar g (ctx, operator) = Inr (ctx', operator') \<Longrightarrow> consistent (set ctx) \<Longrightarrow> distinct ctx
     \<Longrightarrow> consistent (set ctx') \<and> distinct ctx' \<and> set ctx' = set ctx \<union> set (concat (map fst g))"
proof (induction g arbitrary: ctx operator)
  case Nil
  then show ?case by simp
next
  case (Cons entry g)
  obtain ctx1 tp1 where t: "term_loop (fst entry) (ctx, [([], 1)]) = Inr (ctx1, tp1)"
    using Cons.prems(1) unfolding group_loop_step
    by (cases "term_loop (fst entry) (ctx, [([], 1)])") auto
  then have run: "group_loop ar g (ctx1, iadd ar operator (scale ar tp1 (snd entry))) = Inr (ctx', operator')"
    using Cons.prems(1) unfolding group_loop_step by simp
  have "consistent (set ctx1) \<and> distinct ctx1 \<and> set ctx1 = set ctx \<union> set (fst entry)"
    using t Cons.prems(2,3) by (rule term_loop_Inr)
  then have c1: "consistent (set ctx1)" and d1: "distinct ctx1"
    and s1: "set ctx1 = set ctx \<union> set (fst entry)"
    by blast+
  have "consistent (set ctx') \<and> distinct ctx' \<and> set ctx' = set ctx1 \<union> set (concat (map fst g))"
    using run c1 d1 by (rule Cons.IH)
  then have "consistent (set ctx')" "distinct ctx'" "set ctx' = set ctx1 \<union> set (concat (map fst g))"
    by blast+
  moreover have "set ctx1 \<union> set (concat (map fst g)) = set ctx \<union> set (concat (map fst (entry # g)))"
    unfolding s1 by auto
  ultimately show ?case by (simp only: simp_thms)
qed

lemma group_loop_Inl:
  "group_loop ar g (ctx, operator) = Inl e \<Longrightarrow> consistent (set ctx) \<Longrightarrow> distinct ctx
     \<Longrightarrow> e = ValueError ''Terms are not co-measurable''
         \<and> \<not> consistent (set ctx \<union> set (concat (map fst g)))"
proof (induction g arbitrary: ctx operator)
  case Nil
  then show ?case by simp
next
  case (Cons entry g)
  have sub: "set ctx \<union> set (fst entry) \<subseteq> set ctx \<union> set (concat (map fst (entry # g)))"
    by auto
  show ?case
  proof (cases "term_loop (fst entry) (ctx, [([], 1)])")
    case (Inl e')
    then have "e = e'"
      using Cons.prems(1) unfolding group_loop_step by simp
    moreover have "e' = ValueError ''Terms are not co-measurable''
        \<and> \<not> consistent (set ctx \<union> set (fst entry))"
      using Inl by (rule term_loop_Inl)
    ultimately show ?thesis
      using consistent_subset[OF _ sub] by blast
  next
    case (Inr r)
    obtain ctx1 tp1 where r: "r = (ctx1, tp1)" by (cases r)
    have t: "term_loop (fst entry) (ctx, [([], 1)]) = Inr (ctx1, tp1)"
      using Inr r by simp
    then have run: "group_loop ar g (ctx1, iadd ar operator (scale ar tp1 (snd entry))) = Inl e"
      using Cons.prems(1) unfolding group_loop_step by simp
    have "consistent (set ctx1) \<and> distinct ctx1 \<and> set ctx1 = set ctx \<union> set (fst entry)"
      using t Cons.prems(2,3) by (rule term_loop_Inr)
    then have c1: "consistent (set ctx1)" and d1: "distinct ctx1"
      and s1: "set ctx1 = set ctx \<union> set (fst entry)"
      by blast+
    have "e = ValueError ''Terms are not co-measurable''
        \<and> \<not> consistent (set ctx1 \<union> set (concat (map fst g)))"
      using run c1 d1 by (rule Cons.IH)
    moreover have "set ctx1 \<union> set (concat (map fst g)) = set ctx \<union> set (concat (map fst (entry # g)))"
      unfolding s1 by auto
    ultimately show ?thesis by (simp only: simp_thms)
  qed
qed

lemma circuit_loop_closed_form:
  "circuit_loop ctx c = c @ concat (map spec_basis_rotation ctx)"
proof (induction ctx arbitrary: c)
  case Nil
  show ?case by simp
next
  case (Cons f ctx)
  show ?case
    by (cases "snd f") (simp_all add: Cons.IH spec_basis_rotation_def Circuit_def)
qed

lemma qubits_of_rotations:
  "concat (map gate_qubits (concat (map spec_basis_rotation ctx)))
     = map fst (filter (\<lambda>factor. snd factor \<noteq> Z) ctx)"
proof (induction ctx)
  case Nil
  show ?case by simp
next
  case (Cons f ctx)
  then show ?case
    by (cases "snd f") (simp_all add: spec_basis_rotation_def RX_def RY_def)
qed

lemma consistent_distinct_qubits:
  assumes "consistent (set ctx)" and "distinct ctx"
  shows "distinct (map fst ctx)"
proof -
  have "inj_on fst (set ctx)"
  proof (rule inj_onI)
    fix a b assume "a \<in> set ctx" "b \<in> set ctx" "fst a = fst b"
    with assms(1) have "snd a = snd b"
      unfolding consistent_def by blast
    with \<open>fst a = fst b\<close> show "a = b"
      by (rule prod_eqI)
  qed
  with assms(2) show ?thesis
    by (simp add: distinct_map)
qed

lemma consistent_empty: "consistent (set [])"
  by (simp add: consistent_def)

lemma distinct_empty: "distinct ([] :: factor list)"
  by simp

lemma spec_not_co_measurable_iff:
  "spec_not_co_measurable g \<longleftrightarrow> \<not> consistent (set (concat (map fst g)))"
proof
  assume "spec_not_co_measurable g"
  then obtain entry1 entry2 f1 f2 where
    "entry1 \<in> set g" "entry2 \<in> set g" "f1 \<in> set (fst entry1)" "f2 \<in> set (fst entry2)"
    "fst f1 = fst f2" "snd f1 \<noteq> snd f2"
    unfolding spec_not_co_measurable_def terms_conflict_def list_ex_iff by blast
  then have "f1 \<in> set (concat (map fst g))" "f2 \<in> set (concat (map fst g))"
    by auto
  with \<open>fst f1 = fst f2\<close> \<open>snd f1 \<noteq> snd f2\<close> show "\<not> consistent (set (concat (map fst g)))"
    unfolding consistent_def by blast
next
  assume "\<not> consistent (set (concat (map fst g)))"
  then obtain f1 f2 where f: "f1 \<in> set (concat (map fst g))" "f2 \<in> set (concat (map fst g))"
    "fst f1 = fst f2" "snd f1 \<noteq> snd f2"
    unfolding consistent_def by blast
  from f(1) obtain entry1 where "entry1 \<in> set g" "f1 \<in> set (fst entry1)" by auto
  moreover from f(2) obtain entry2 where "entry2 \<in> set g" "f2 \<in> set (fst entry2)" by auto
  ultimately show "spec_not_co_measurable g"
    unfolding spec_not_co_measurable_def terms_conflict_def list_ex_iff
    using f(3,4) by blast
qed

lemma for_group_cases:
  "(\<not> spec_not_co_measurable g \<and>
      (\<exists>ctx operator. group_loop ar g ([], IsingOperator_zero) = Inr (ctx, operator)
         \<and> get_context_selection_circuit_for_group ar g
             = Inr (concat (map spec_basis_rotation ctx), operator)
         \<and> consistent (set ctx) \<and> distinct ctx \<and> set ctx = set (concat (map fst g))))
   \<or> (spec_not_co_measurable g \<and>
        get_context_selection_circuit_for_group ar g
          = Inl (ValueError ''Terms are not co-measurable''))"
proof (cases "group_loop ar g ([], IsingOperator_zero)")
  case (Inl e)
  have "e = ValueError ''Terms are not co-measurable''
      \<and> \<not> consistent (set [] \<union> set (concat (map fst g)))"
    using Inl consistent_empty distinct_empty by (rule group_loop_Inl)
  then have "e = ValueError ''Terms are not co-measurable''" "spec_not_co_measurable g"
    by (simp_all add: spec_not_co_measurable_iff)
  moreover have "get_context_selection_circuit_for_group ar g = Inl e"
    by (simp add: get_context_selection_circuit_for_group_def Inl)
  ultimately show ?thesis by simp
next
  case (Inr r)
  obtain ctx operator where r: "r = (ctx, operator)" by (cases r)
  have run: "group_loop ar g ([], IsingOperator_zero) = Inr (ctx, operator)"
    using Inr r by simp
  have "consistent (set ctx) \<and> distinct ctx \<and> set ctx = set [] \<union> set (concat (map fst g))"
    using run consistent_empty distinct_empty by (rule group_loop_Inr)
  then have p1: "consistent (set ctx)" and p2: "distinct ctx"
    and p3: "set ctx = set [] \<union> set (concat (map fst g))"
    by blast+
  have p4: "set ctx = set (concat (map fst g))"
    unfolding p3 by simp
  note p = p1 p2 p4
  have "\<not> spec_not_co_measurable g"
    unfolding spec_not_co_measurable_iff using p1 unfolding p4 by simp
  moreover have "get_context_selection_circuit_for_group ar g
      = Inr (concat (map spec_basis_rotation ctx), operator)"
    by (simp add: get_context_selection_circuit_for_group_def run circuit_loop_closed_form)
  ultimately show ?thesis
    using run p by blast
qed

lemma self_conflict_free:
  assumes "distinct (map fst t)"
  shows "\<not> terms_conflict t t"
proof
  assume "terms_conflict t t"
  then obtain f1 f2 where f: "f1 \<in> set t" "f2 \<in> set t" "fst f1 = fst f2" "snd f1 \<noteq> snd f2"
    unfolding terms_conflict_def list_ex_iff by blast
  from assms have "inj_on fst (set t)"
    by (simp add: distinct_map)
  then have "f1 = f2"
    using f(3,1,2) by (rule inj_onD)
  with f(4) show False by simp
qed

lemma dict_set_fresh: "k \<notin> fst ` set d \<Longrightarrow> dict_set k v d = d @ [(k, v)]"
  by (induction d) auto

lemma dict_del_fresh: "k \<notin> fst ` set d \<Longrightarrow> dict_del k (d @ [(k, v)]) = d"
  by (induction d) (auto simp: dict_del_def)

lemma map_of_fresh: "k \<notin> fst ` set d \<Longrightarrow> map_of d k = None"
  by (simp add: map_of_eq_None_iff)

lemma iadd_step_fresh:
  assumes "k \<notin> fst ` set operator"
  shows "iadd_step ar (k, c) operator
           = (if issmall ar (float_add ar 0 c) then operator
              else operator @ [(k, float_add ar 0 c)])"
  using assms
  by (simp add: iadd_step_def Let_def map_of_fresh dict_set_fresh dict_del_fresh)

lemma iadd_scaled_monomial:
  "iadd ar operator (scale ar [(t, 1)] c) = iadd_step ar (t, float_mul ar 1 c) operator"
  by (simp add: iadd_def scale_def)

lemma Z_term_sorted:
  assumes "sorted (map fst t)"
  shows "Z_term t = map (\<lambda>factor. (fst factor, Z)) t"
proof -
  have "map fst (map (\<lambda>factor. (fst factor, Z)) t) = map fst t"
    by (simp add: comp_def)
  then have "sorted (map fst (map (\<lambda>factor. (fst factor, Z)) t))"
    using assms by (simp only:)
  then show ?thesis
    unfolding Z_term_def by (rule sort_key_id_if_sorted)
qed

lemma Z_term_injective:
  assumes s1: "sorted (map fst t1)" and s2: "sorted (map fst t2)"
    and c: "consistent (set t1 \<union> set t2)"
    and z: "Z_term t1 = Z_term t2"
  shows "t1 = t2"
proof -
  have "map (\<lambda>factor. (fst factor, Z)) t1 = map (\<lambda>factor. (fst factor, Z)) t2"
    using z unfolding Z_term_sorted[OF s1] Z_term_sorted[OF s2] .
  then have "map fst (map (\<lambda>factor. (fst factor, Z)) t1)
      = map fst (map (\<lambda>factor. (fst factor, Z)) t2)"
    by simp
  then have q: "map fst t1 = map fst t2"
    by (simp add: comp_def)
  then have len: "length t1 = length t2"
    by (rule map_eq_imp_length_eq)
  show ?thesis
  proof (rule nth_equalityI)
    show "length t1 = length t2" by (rule len)
  next
    fix i assume i: "i < length t1"
    then have i2: "i < length t2" using len by simp
    have "map fst t1 ! i = map fst t2 ! i" using q by simp
    then have f: "fst (t1 ! i) = fst (t2 ! i)" using i i2 by simp
    have "t1 ! i \<in> set t1 \<union> set t2" "t2 ! i \<in> set t1 \<union> set t2"
      using i i2 by simp_all
    with c f have "snd (t1 ! i) = snd (t2 ! i)"
      unfolding consistent_def by blast
    with f show "t1 ! i = t2 ! i"
      by (rule prod_eqI)
  qed
qed

lemma distinct_Z_terms:
  assumes c: "consistent (set (concat (map fst g)))"
    and d: "distinct (map fst g)"
    and s: "\<forall>entry\<in>set g. sorted (map fst (fst entry))"
  shows "distinct (map (\<lambda>entry. Z_term (fst entry)) g)"
proof -
  have "inj_on Z_term (set (map fst g))"
  proof (rule inj_onI)
    fix t1 t2 assume t: "t1 \<in> set (map fst g)" "t2 \<in> set (map fst g)"
      and z: "Z_term t1 = Z_term t2"
    from t s have s1: "sorted (map fst t1)" and s2: "sorted (map fst t2)"
      by auto
    from t have "set t1 \<union> set t2 \<subseteq> set (concat (map fst g))"
      by auto
    with c have "consistent (set t1 \<union> set t2)"
      by (rule consistent_subset)
    with s1 s2 show "t1 = t2" using z by (rule Z_term_injective)
  qed
  with d have "distinct (map Z_term (map fst g))"
    unfolding distinct_map by (simp only: simp_thms)
  moreover have "map Z_term (map fst g) = map (\<lambda>entry. Z_term (fst entry)) g"
    by (simp add: comp_def)
  ultimately show ?thesis
    by (simp only:)
qed

lemma spec_frame_operator_Cons:
  "spec_frame_operator ar (entry # g)
     = (if issmall ar (spec_coefficient ar (snd entry)) then []
        else [(Z_term (fst entry), spec_coefficient ar (snd entry))])
       @ spec_frame_operator ar g"
  by (simp add: spec_frame_operator_def)

lemma group_loop_frame_operator:
  "group_loop ar g (ctx, operator) = Inr (ctx', operator')
     \<Longrightarrow> distinct (map (\<lambda>entry. Z_term (fst entry)) g)
     \<Longrightarrow> \<forall>entry\<in>set g. Z_term (fst entry) \<notin> fst ` set operator
     \<Longrightarrow> operator' = operator @ spec_frame_operator ar g"
proof (induction g arbitrary: ctx operator)
  case Nil
  then show ?case by (simp add: spec_frame_operator_def)
next
  case (Cons entry g)
  obtain ctx1 tp1 where t: "term_loop (fst entry) (ctx, [([], 1)]) = Inr (ctx1, tp1)"
    using Cons.prems(1) unfolding group_loop_step
    by (cases "term_loop (fst entry) (ctx, [([], 1)])") auto
  then have run: "group_loop ar g (ctx1, iadd ar operator (scale ar tp1 (snd entry)))
      = Inr (ctx', operator')"
    using Cons.prems(1) unfolding group_loop_step by simp
  have tp1: "tp1 = [(Z_term (fst entry), 1)]"
    using t by (rule term_loop_identity_operator)
  have fresh: "Z_term (fst entry) \<notin> fst ` set operator"
    using Cons.prems(3) by simp
  let ?step = "if issmall ar (spec_coefficient ar (snd entry)) then []
        else [(Z_term (fst entry), spec_coefficient ar (snd entry))]"
  have op1: "iadd ar operator (scale ar tp1 (snd entry)) = operator @ ?step"
    unfolding tp1 iadd_scaled_monomial iadd_step_fresh[OF fresh]
    by (simp add: spec_coefficient_def)
  have d: "distinct (map (\<lambda>entry. Z_term (fst entry)) g)"
    using Cons.prems(2) by simp
  have "Z_term (fst entry) \<notin> set (map (\<lambda>entry. Z_term (fst entry)) g)"
    using Cons.prems(2) by simp
  then have new: "\<forall>e\<in>set g. Z_term (fst e) \<noteq> Z_term (fst entry)"
    by (metis imageI list.set_map)
  have "\<forall>e\<in>set g. Z_term (fst e) \<notin> fst ` set (operator @ ?step)"
  proof
    fix e assume e: "e \<in> set g"
    with Cons.prems(3) have "Z_term (fst e) \<notin> fst ` set operator" by simp
    moreover from e new have "Z_term (fst e) \<noteq> Z_term (fst entry)" by blast
    ultimately show "Z_term (fst e) \<notin> fst ` set (operator @ ?step)"
      by auto
  qed
  then have f: "\<forall>e\<in>set g. Z_term (fst e)
      \<notin> fst ` set (iadd ar operator (scale ar tp1 (snd entry)))"
    unfolding op1 .
  have "operator' = iadd ar operator (scale ar tp1 (snd entry)) @ spec_frame_operator ar g"
    using run d f by (rule Cons.IH)
  then show ?case
    unfolding op1 spec_frame_operator_Cons by simp
qed

lemma BasicEstimator_restores_n_samples_on_return:
  assumes "BasicEstimator_get_estimated_expectation_values env backend circuit target_operator
             (Some n) epsilon delta decomposition_method = (Inr estimate, backend')"
  shows "n_samples backend' = n_samples backend"
  using assms
  by (auto simp: BasicEstimator_get_estimated_expectation_values_def Let_def
      split: sum.splits prod.splits)

section \<open>Properties\<close>

text \<open>
  C6. \<^verbatim>\<open>get_decomposition_function\<close> raises (a \<^verbatim>\<open>ValueError\<close>) exactly when the name is
  neither "greedy" nor "greedy-sorted"; for "greedy" it returns the greedy grouping called
  with the operator alone, for "greedy-sorted" the greedy grouping called with the operator
  and \<^verbatim>\<open>True\<close>.
\<close>

theorem get_decomposition_function_known_names:
  "(isl (get_decomposition_function g name) \<longleftrightarrow> name \<notin> {''greedy'', ''greedy-sorted''})
   \<and> (name \<notin> {''greedy'', ''greedy-sorted''} \<longrightarrow>
        get_decomposition_function g name = Inl (ValueError (unrecognized_message name)))
   \<and> get_decomposition_function g ''greedy'' = Inr (\<lambda>qubit_operator. g qubit_operator None)
   \<and> get_decomposition_function g ''greedy-sorted''
        = Inr (\<lambda>qubit_operator. g qubit_operator (Some True))"
  by (simp add: get_decomposition_function_def DECOMPOSITION_METHODS_def)

theorem get_decomposition_function_known_names_witness:
  "isl (get_decomposition_function (\<lambda>qubit_operator sorted. [qubit_operator]) ''random'')
   \<and> get_decomposition_function (\<lambda>qubit_operator sorted. [qubit_operator]) ''random''
       = Inl (ValueError (unrecognized_message ''random''))
   \<and> \<not> isl (get_decomposition_function (\<lambda>qubit_operator sorted. [qubit_operator]) ''greedy'')"
  using get_decomposition_function_known_names
          [of "\<lambda>qubit_operator sorted. [qubit_operator]" "''random''"]
        get_decomposition_function_known_names
          [of "\<lambda>qubit_operator sorted. [qubit_operator]" "''greedy''"]
  by simp

text \<open>
  C3. For every Pauli term, \<^verbatim>\<open>get_context_selection_circuit\<close> returns the circuit made,
  in factor order, of one RY(-pi/2) on the qubit of each X factor and one RX(pi/2) on the
  qubit of each Y factor, with no gate for a Z factor, and the frame operator that is the
  product of Z over the qubit indices of the term. For the term X on qubit 0 the circuit
  is the single gate RY(-pi/2) on qubit 0 and the frame operator is Z on qubit 0.
\<close>

theorem get_context_selection_circuit_closed_form:
  "get_context_selection_circuit t
     = (concat (map spec_basis_rotation t), spec_Z_product (map fst t))
   \<and> get_context_selection_circuit [(0, X)] = ([RY (- pi / 2) 0], [([(0, Z)], 1)])"
proof
  show "get_context_selection_circuit t
     = (concat (map spec_basis_rotation t), spec_Z_product (map fst t))"
    by (simp add: get_context_selection_circuit_def IsingOperator_identity_def
        context_selection_loop_monomial spec_Z_product_def comp_def)
  show "get_context_selection_circuit [(0, X)] = ([RY (- pi / 2) 0], [([(0, Z)], 1)])"
    by (simp add: get_context_selection_circuit_def IsingOperator_identity_def
        IsingOperator_factor_def imul_def imul_step_def simplify_def Circuit_def)
qed

text \<open>
  C2. \<^verbatim>\<open>get_context_selection_circuit_for_group\<close> raises exactly when the group holds
  two terms that give different letters to the same qubit, and what it raises is the
  \<^verbatim>\<open>ValueError\<close> "Terms are not co-measurable"; for every other group it returns a pair
  of a circuit and an operator. When no term names a qubit twice, as in every
  \<^verbatim>\<open>QubitOperator\<close>, the two conflicting terms are different terms.
\<close>

theorem for_group_raises_iff_not_co_measurable:
  "(isl (get_context_selection_circuit_for_group ar g) \<longleftrightarrow> spec_not_co_measurable g)
   \<and> (spec_not_co_measurable g \<longrightarrow>
        get_context_selection_circuit_for_group ar g
          = Inl (ValueError ''Terms are not co-measurable''))
   \<and> (\<not> spec_not_co_measurable g \<longrightarrow>
        (\<exists>circuit operator. get_context_selection_circuit_for_group ar g = Inr (circuit, operator)))
   \<and> ((\<forall>entry\<in>set g. distinct (map fst (fst entry))) \<longrightarrow>
        (spec_not_co_measurable g \<longleftrightarrow>
           (\<exists>entry1\<in>set g. \<exists>entry2\<in>set g.
              fst entry1 \<noteq> fst entry2 \<and> terms_conflict (fst entry1) (fst entry2))))"
proof -
  have a: "isl (get_context_selection_circuit_for_group ar g) \<longleftrightarrow> spec_not_co_measurable g"
    using for_group_cases[of g ar] by auto
  have b: "spec_not_co_measurable g \<longrightarrow>
        get_context_selection_circuit_for_group ar g
          = Inl (ValueError ''Terms are not co-measurable'')"
    using for_group_cases[of g ar] by blast
  have c: "\<not> spec_not_co_measurable g \<longrightarrow>
        (\<exists>circuit operator. get_context_selection_circuit_for_group ar g = Inr (circuit, operator))"
    using for_group_cases[of g ar] by blast
  have d: "(\<forall>entry\<in>set g. distinct (map fst (fst entry))) \<longrightarrow>
        (spec_not_co_measurable g \<longleftrightarrow>
           (\<exists>entry1\<in>set g. \<exists>entry2\<in>set g.
              fst entry1 \<noteq> fst entry2 \<and> terms_conflict (fst entry1) (fst entry2)))"
  proof
    assume wf: "\<forall>entry\<in>set g. distinct (map fst (fst entry))"
    show "spec_not_co_measurable g \<longleftrightarrow>
           (\<exists>entry1\<in>set g. \<exists>entry2\<in>set g.
              fst entry1 \<noteq> fst entry2 \<and> terms_conflict (fst entry1) (fst entry2))"
    proof
      assume "spec_not_co_measurable g"
      then obtain entry1 entry2 where e: "entry1 \<in> set g" "entry2 \<in> set g"
        "terms_conflict (fst entry1) (fst entry2)"
        unfolding spec_not_co_measurable_def list_ex_iff by blast
      have "fst entry1 \<noteq> fst entry2"
      proof
        assume "fst entry1 = fst entry2"
        with e(3) have "terms_conflict (fst entry1) (fst entry1)" by simp
        moreover have "distinct (map fst (fst entry1))" using wf e(1) by blast
        ultimately show False using self_conflict_free by blast
      qed
      with e show "\<exists>entry1\<in>set g. \<exists>entry2\<in>set g.
              fst entry1 \<noteq> fst entry2 \<and> terms_conflict (fst entry1) (fst entry2)"
        by blast
    next
      assume "\<exists>entry1\<in>set g. \<exists>entry2\<in>set g.
              fst entry1 \<noteq> fst entry2 \<and> terms_conflict (fst entry1) (fst entry2)"
      then show "spec_not_co_measurable g"
        unfolding spec_not_co_measurable_def list_ex_iff by blast
    qed
  qed
  from a b c d show ?thesis by (intro conjI)
qed

theorem for_group_raises_iff_not_co_measurable_witness:
  "spec_not_co_measurable [([(0, X)], 1), ([(0, Y)], 1)]
   \<and> list_all (\<lambda>entry. distinct (map fst (fst entry))) [([(0, X)], 1), ([(0, Y)], 1 :: complex)]
   \<and> (\<exists>entry1\<in>set [([(0, X)], 1), ([(0, Y)], 1 :: complex)].
        \<exists>entry2\<in>set [([(0, X)], 1), ([(0, Y)], 1 :: complex)].
          fst entry1 \<noteq> fst entry2 \<and> terms_conflict (fst entry1) (fst entry2))
   \<and> get_context_selection_circuit_for_group tolerance_arithmetic [([(0, X)], 1), ([(0, Y)], 1)]
        = Inl (ValueError ''Terms are not co-measurable'')
   \<and> \<not> spec_not_co_measurable [([(0, X), (1, Y)], 1), ([(1, Y)], 2)]
   \<and> \<not> isl (get_context_selection_circuit_for_group tolerance_arithmetic [([(0, X), (1, Y)], 1), ([(1, Y)], 2)])"
proof -
  have h1: "spec_not_co_measurable [([(0, X)], 1), ([(0, Y)], 1)]"
    by (simp add: spec_not_co_measurable_def terms_conflict_def)
  have h2: "\<not> spec_not_co_measurable [([(0, X), (1, Y)], 1), ([(1, Y)], 2)]"
    by (simp add: spec_not_co_measurable_def terms_conflict_def)
  show ?thesis
    using h1 h2
      for_group_raises_iff_not_co_measurable
        [of tolerance_arithmetic "[([(0, X)], 1), ([(0, Y)], 1)]"]
      for_group_raises_iff_not_co_measurable
        [of tolerance_arithmetic "[([(0, X), (1, Y)], 1), ([(1, Y)], 2)]"]
    by simp
qed


text \<open>
  C4. For every co-measurable group,
  \<^verbatim>\<open>get_context_selection_circuit_for_group\<close> returns a circuit whose gates are the
  basis rotations of the factors that occur in the group, with at most one gate on each
  qubit. When the group is the dictionary of a \<^verbatim>\<open>QubitOperator\<close> (its terms are
  pairwise different and each is sorted by qubit index), the frame operator holds, in the
  order of the group, the product of Z over the qubit indices of every term whose
  coefficient, as the library computes it (\<open>0.0 + 1.0 * c\<close>), is not below the library's
  tolerance, with that coefficient; a term whose coefficient is below the tolerance
  contributes nothing.
\<close>

theorem for_group_circuit_and_frame_operator:
  assumes "\<not> spec_not_co_measurable g"
  shows "\<exists>circuit operator.
           get_context_selection_circuit_for_group ar g = Inr (circuit, operator)
         \<and> set circuit = (\<Union>factor\<in>set (concat (map fst g)). set (spec_basis_rotation factor))
         \<and> distinct (concat (map gate_qubits circuit))
         \<and> (distinct (map fst g) \<and> (\<forall>entry\<in>set g. sorted (map fst (fst entry)))
              \<longrightarrow> operator = spec_frame_operator ar g)"
proof -
  from assms for_group_cases[of g ar] obtain ctx operator where
    run: "group_loop ar g ([], IsingOperator_zero) = Inr (ctx, operator)"
    and res: "get_context_selection_circuit_for_group ar g
             = Inr (concat (map spec_basis_rotation ctx), operator)"
    and c: "consistent (set ctx)" and d: "distinct ctx"
    and s: "set ctx = set (concat (map fst g))"
    by blast
  have "set (concat (map spec_basis_rotation ctx))
      = (\<Union>factor\<in>set ctx. set (spec_basis_rotation factor))"
    by simp
  then have 1: "set (concat (map spec_basis_rotation ctx))
      = (\<Union>factor\<in>set (concat (map fst g)). set (spec_basis_rotation factor))"
    unfolding s .
  have "distinct (map fst ctx)"
    using c d by (rule consistent_distinct_qubits)
  then have "distinct (map fst (filter (\<lambda>factor. snd factor \<noteq> Z) ctx))"
    by (rule distinct_map_filter)
  then have 2: "distinct (concat (map gate_qubits (concat (map spec_basis_rotation ctx))))"
    unfolding qubits_of_rotations .
  have 3: "distinct (map fst g) \<and> (\<forall>entry\<in>set g. sorted (map fst (fst entry)))
              \<longrightarrow> operator = spec_frame_operator ar g"
  proof
    assume wf: "distinct (map fst g) \<and> (\<forall>entry\<in>set g. sorted (map fst (fst entry)))"
    have cg: "consistent (set (concat (map fst g)))"
      using c unfolding s .
    have dz: "distinct (map (\<lambda>entry. Z_term (fst entry)) g)"
      using cg wf by (intro distinct_Z_terms) blast+
    have fresh: "\<forall>entry\<in>set g. Z_term (fst entry) \<notin> fst ` set IsingOperator_zero"
      by (simp add: IsingOperator_zero_def)
    have "operator = IsingOperator_zero @ spec_frame_operator ar g"
      using run dz fresh by (rule group_loop_frame_operator)
    then show "operator = spec_frame_operator ar g"
      by (simp add: IsingOperator_zero_def)
  qed
  from res 1 2 3 show ?thesis by blast
qed

theorem for_group_circuit_and_frame_operator_witness:
  "\<not> spec_not_co_measurable
        [([(0, X), (1, Y)], 1), ([(1, Y), (2, Z)], 2), ([(2, Z)], 1 / 2 ^ 30)]
   \<and> distinct (map fst [([(0 :: nat, X), (1, Y)], 1 :: complex), ([(1, Y), (2, Z)], 2),
                         ([(2, Z)], 1 / 2 ^ 30)])
   \<and> list_all (\<lambda>entry. sorted (map fst (fst entry)))
        [([(0 :: nat, X), (1, Y)], 1 :: complex), ([(1, Y), (2, Z)], 2), ([(2, Z)], 1 / 2 ^ 30)]
   \<and> (\<exists>circuit.
           get_context_selection_circuit_for_group tolerance_arithmetic
               [([(0, X), (1, Y)], 1), ([(1, Y), (2, Z)], 2), ([(2, Z)], 1 / 2 ^ 30)]
             = Inr (circuit, [([(0, Z), (1, Z)], 1), ([(1, Z), (2, Z)], 2)])
         \<and> set circuit = {RY (- pi / 2) 0, RX (pi / 2) 1}
         \<and> distinct (concat (map gate_qubits circuit)))"
proof -
  let ?g = "[([(0 :: nat, X), (1, Y)], 1 :: complex), ([(1, Y), (2, Z)], 2),
            ([(2, Z)], 1 / 2 ^ 30)]"
  have h: "\<not> spec_not_co_measurable ?g"
    by (simp add: spec_not_co_measurable_def terms_conflict_def)
  have wf: "distinct (map fst ?g) \<and> (\<forall>entry\<in>set ?g. sorted (map fst (fst entry)))"
    by simp
  have small: "cmod (1 / 2 ^ 30) < 1 / 10 ^ 8"
    by (simp add: norm_divide norm_power)
  have f: "spec_frame_operator tolerance_arithmetic ?g
      = [([(0, Z), (1, Z)], 1), ([(1, Z), (2, Z)], 2)]"
    using small
    by (simp add: spec_frame_operator_def spec_coefficient_def tolerance_arithmetic_def Z_term_def)
  from for_group_circuit_and_frame_operator [OF h, of tolerance_arithmetic]
  obtain circuit operator where
    r: "get_context_selection_circuit_for_group tolerance_arithmetic ?g = Inr (circuit, operator)"
    and s: "set circuit
          = (\<Union>factor\<in>set (concat (map fst ?g)). set (spec_basis_rotation factor))"
    and d: "distinct (concat (map gate_qubits circuit))"
    and k: "distinct (map fst ?g) \<and> (\<forall>entry\<in>set ?g. sorted (map fst (fst entry)))
              \<longrightarrow> operator = spec_frame_operator tolerance_arithmetic ?g"
    by blast
  from k wf have "operator = spec_frame_operator tolerance_arithmetic ?g"
    by (rule mp)
  then have o: "operator = [([(0, Z), (1, Z)], 1), ([(1, Z), (2, Z)], 2)]"
    unfolding f .
  have c: "set circuit = {RY (- pi / 2) 0, RX (pi / 2) 1}"
    unfolding s by (simp add: spec_basis_rotation_def insert_commute)
  have w: "list_all (\<lambda>entry. sorted (map fst (fst entry))) ?g"
    by simp
  have dk: "distinct (map fst ?g)"
    by simp
  from r o c d have "\<exists>circuit.
           get_context_selection_circuit_for_group tolerance_arithmetic ?g
             = Inr (circuit, [([(0, Z), (1, Z)], 1), ([(1, Z), (2, Z)], 2)])
         \<and> set circuit = {RY (- pi / 2) 0, RX (pi / 2) 1}
         \<and> distinct (concat (map gate_qubits circuit))"
    by blast
  with h dk w show ?thesis
    by (intro conjI)
qed

text \<open>
  C4 in the specification's words has the frame operator equal to the sum, over the terms
  of the group, of the coefficient times the product of Z. That fails: for the group with the one term Z on
  qubit 0 and coefficient \<open>2 ^ -30\<close>, which is below the tolerance, the function returns
  the operator with no term: its coefficient at Z on qubit 0 is 0, not \<open>2 ^ -30\<close>.
\<close>

theorem for_group_frame_operator_counterexample:
  "\<not> spec_not_co_measurable [([(0, Z)], 1 / 2 ^ 30)]
   \<and> get_context_selection_circuit_for_group tolerance_arithmetic [([(0, Z)], 1 / 2 ^ 30)]
       = Inr ([], [])
   \<and> coefficient_of [] [(0, Z)]
       \<noteq> (1 / 2 ^ 30) * coefficient_of (spec_Z_product [0]) [(0, Z)]"
proof -
  have small: "cmod (1 / 2 ^ 30) < 1 / 10 ^ 8"
    by (simp add: norm_divide norm_power)
  have 1: "\<not> spec_not_co_measurable [([(0, Z)], 1 / 2 ^ 30)]"
    by (simp add: spec_not_co_measurable_def terms_conflict_def)
  have 2: "get_context_selection_circuit_for_group tolerance_arithmetic [([(0, Z)], 1 / 2 ^ 30)]
       = Inr ([], [])"
    using small
    by (simp add: get_context_selection_circuit_for_group_def
        IsingOperator_identity_def IsingOperator_zero_def IsingOperator_factor_def
        imul_def imul_step_def simplify_def scale_def iadd_def iadd_step_def append_if_new_def
        tolerance_arithmetic_def dict_del_def)
  have 3: "coefficient_of [] [(0, Z)]
       \<noteq> (1 / 2 ^ 30) * coefficient_of (spec_Z_product [0]) [(0, Z)]"
    by (simp add: coefficient_of_def spec_Z_product_def)
  from 1 2 3 show ?thesis by (intro conjI)
qed

text \<open>
  C5. \<^verbatim>\<open>ExactEstimator.get_estimated_expectation_values\<close> raises an
  \<^verbatim>\<open>AttributeError\<close> whenever the backend is not a \<^verbatim>\<open>QuantumSimulator\<close>, leaving the
  backend as it was; for a simulator it is exactly the one call
  \<^verbatim>\<open>backend.get_exact_expectation_values(circuit, target_operator)\<close> on the whole
  operator, with no grouping.
\<close>

theorem ExactEstimator_delegates_or_raises:
  "(\<not> is_quantum_simulator backend \<longrightarrow>
      ExactEstimator_get_estimated_expectation_values env backend circuit target_operator
          n_samples_given epsilon delta
        = (Inl (AttributeError
                  ''To use the ExactEstimator, the backend must be a QuantumSimulator.''),
           backend))
   \<and> (is_quantum_simulator backend \<longrightarrow>
      ExactEstimator_get_estimated_expectation_values env backend circuit target_operator
          n_samples_given epsilon delta
        = get_exact_expectation_values env backend circuit target_operator)"
  by (simp add: ExactEstimator_get_estimated_expectation_values_def)

theorem ExactEstimator_delegates_or_raises_witness:
  "\<not> is_quantum_simulator sampling_backend
   \<and> ExactEstimator_get_estimated_expectation_values offline_collaborators sampling_backend
          [] [([(0, Z)], 1)] None None None
        = (Inl (AttributeError
                  ''To use the ExactEstimator, the backend must be a QuantumSimulator.''),
           sampling_backend)
   \<and> is_quantum_simulator (sampling_backend\<lparr>is_quantum_simulator := True\<rparr>)
   \<and> ExactEstimator_get_estimated_expectation_values offline_collaborators
          (sampling_backend\<lparr>is_quantum_simulator := True\<rparr>) [] [([(0, Z)], 1)] None None None
        = (Inr (), sampling_backend\<lparr>is_quantum_simulator := True\<rparr>)"
  using ExactEstimator_delegates_or_raises
          [of sampling_backend offline_collaborators "[]" "[([(0, Z)], 1)]" None None None]
        ExactEstimator_delegates_or_raises
          [of "sampling_backend\<lparr>is_quantum_simulator := True\<rparr>" offline_collaborators
              "[]" "[([(0, Z)], 1)]" None None None]
  by (simp add: sampling_backend_def offline_collaborators_def)

text \<open>
  C10. The result of \<^verbatim>\<open>ExactEstimator.get_estimated_expectation_values\<close> does not
  depend on the arguments \<^verbatim>\<open>n_samples\<close>, \<^verbatim>\<open>epsilon\<close> and \<^verbatim>\<open>delta\<close>: two calls that
  differ only in them return the same.
\<close>

theorem ExactEstimator_ignores_sampling_arguments:
  "ExactEstimator_get_estimated_expectation_values env backend circuit target_operator
       n_samples_given epsilon delta
     = ExactEstimator_get_estimated_expectation_values env backend circuit target_operator
         n_samples_given' epsilon' delta'"
  by (simp add: ExactEstimator_get_estimated_expectation_values_def)

text \<open>
  C9. With an unknown decomposition-method name,
  \<^verbatim>\<open>BasicEstimator.get_estimated_expectation_values\<close> raises before it touches the
  backend: whatever the collaborators are, the backend's batched run among them, and
  whatever \<^verbatim>\<open>backend.n_samples\<close> holds, the call raises the \<^verbatim>\<open>ValueError\<close> of the
  name and leaves the backend in the state it had.
\<close>

theorem BasicEstimator_unknown_method_leaves_backend:
  assumes "decomposition_method \<notin> {''greedy'', ''greedy-sorted''}"
  shows "BasicEstimator_get_estimated_expectation_values env backend circuit target_operator
             n_samples_given epsilon delta decomposition_method
           = (Inl (ValueError (unrecognized_message decomposition_method)), backend)"
  using assms
  by (simp add: BasicEstimator_get_estimated_expectation_values_def
      get_decomposition_function_def DECOMPOSITION_METHODS_def)

theorem BasicEstimator_unknown_method_leaves_backend_witness:
  "''annealing'' \<notin> {''greedy'', ''greedy-sorted''}
   \<and> BasicEstimator_get_estimated_expectation_values offline_collaborators sampling_backend
          [] [([(0, Z)], 1)] (Some 10) None None ''annealing''
        = (Inl (ValueError (unrecognized_message ''annealing'')), sampling_backend)"
proof -
  have h: "''annealing'' \<notin> {''greedy'', ''greedy-sorted''}" by simp
  show ?thesis
    using h BasicEstimator_unknown_method_leaves_backend
              [OF h, of offline_collaborators sampling_backend "[]" "[([(0, Z)], 1)]"
                 "Some 10" None None]
    by simp
qed

text \<open>
  C1. The claim: when \<^verbatim>\<open>n_samples\<close> is given,
  \<^verbatim>\<open>BasicEstimator.get_estimated_expectation_values\<close> leaves \<^verbatim>\<open>backend.n_samples\<close> at
  its previous value also when \<^verbatim>\<open>run_circuitset_and_measure\<close> raises. The code does not:
  with a backend configured for 100 samples whose batched run fails, a call with
  \<^verbatim>\<open>n_samples=10\<close> raises the backend's error and leaves \<^verbatim>\<open>backend.n_samples\<close> at 10.
\<close>

theorem BasicEstimator_failed_run_keeps_override:
  "BasicEstimator_get_estimated_expectation_values offline_collaborators sampling_backend
       [] [([(0, Z)], 1)] (Some 10) None None ''greedy''
     = (Inl (BackendFailure ''device unreachable''), sampling_backend\<lparr>n_samples := Some 10\<rparr>)
   \<and> n_samples sampling_backend = Some 100
   \<and> n_samples (snd (BasicEstimator_get_estimated_expectation_values offline_collaborators
         sampling_backend [] [([(0, Z)], 1)] (Some 10) None None ''greedy'')) = Some 10"
  by (simp add: BasicEstimator_get_estimated_expectation_values_def
      get_decomposition_function_def DECOMPOSITION_METHODS_def offline_collaborators_def
      sampling_backend_def get_context_selection_circuit_for_group_def
      IsingOperator_identity_def IsingOperator_zero_def IsingOperator_factor_def
      imul_def imul_step_def simplify_def scale_def iadd_def iadd_step_def append_if_new_def
      tolerance_arithmetic_def)

text \<open>
  C7. Calling \<^verbatim>\<open>AnsatzBasedCostFunction\<close> on a parameter vector returns the value
  estimate whose value is the sum (\<^verbatim>\<open>np.sum\<close>) of the expectation values that its estimator produces
  for the circuit the ansatz builds on the effective parameters: the vector itself when
  \<^verbatim>\<open>fixed_parameters\<close> is unset, and \<^verbatim>\<open>combine_ansatz_params\<close> of the fixed parameters
  and the vector when it is set.
\<close>

theorem cost_function_sums_expectation_values:
  assumes "get_executable_circuit (self_ansatz self)
             (spec_effective_parameters combine_ansatz_params (self_fixed_parameters self) parameters)
           = Inr circuit"
    and "self_estimator self (self_backend self) circuit (self_target_operator self)
             (self_n_samples self) (self_epsilon self) (self_delta self)
           = (Inr expectation_values, backend')"
  shows "AnsatzBasedCostFunction_call np_sum combine_ansatz_params self parameters
           = (Inr (ValueEstimate (np_sum (ev_values expectation_values)) None), backend')
       \<and> spec_effective_parameters combine_ansatz_params None parameters = parameters
       \<and> spec_effective_parameters combine_ansatz_params (Some fixed_parameters) parameters
           = combine_ansatz_params fixed_parameters parameters"
  using assms
  by (cases "self_fixed_parameters self")
     (simp_all add: AnsatzBasedCostFunction_call_def spec_effective_parameters_def)

theorem cost_function_sums_expectation_values_witness:
  "AnsatzBasedCostFunction_call sum_list (@) summing_cost_function [4]
     = (Inr (ValueEstimate 7 None), sampling_backend)"
proof -
  have c: "get_executable_circuit (self_ansatz summing_cost_function)
             (spec_effective_parameters (@) (self_fixed_parameters summing_cost_function) [4])
           = Inr [RX 1 0, RX 2 0, RX 4 0]"
    by (simp add: summing_cost_function_def spec_effective_parameters_def)
  have e: "self_estimator summing_cost_function (self_backend summing_cost_function)
             [RX 1 0, RX 2 0, RX 4 0] (self_target_operator summing_cost_function)
             (self_n_samples summing_cost_function) (self_epsilon summing_cost_function)
             (self_delta summing_cost_function)
           = (Inr \<lparr>ev_values = [1, 2, 4]\<rparr>, sampling_backend)"
    by (simp add: summing_cost_function_def RX_def)
  from cost_function_sums_expectation_values [OF c e, where np_sum = sum_list] show ?thesis
    by simp
qed

end
